theory Spec2Isabelle
  imports Main "HOL-Library.Word"
begin

unbundle bit_operations_syntax

section \<open>The pack reader of tiny-commit-walker (src/lib/pack.ts)\<close>

text \<open>
  The development embeds \<^verbatim>\<open>src/lib/pack.ts\<close>: the object-header decoder
  (\<^verbatim>\<open>PackedObject\<close>), the index parser (\<^verbatim>\<open>setupPackedIndexMap\<close>), the
  store registry (\<^verbatim>\<open>Packs.initialize\<close>, \<^verbatim>\<open>Packs.initializeSync\<close>), the object
  resolution (\<^verbatim>\<open>unpackGitObject\<close> and its helpers) and the decompression retry
  (\<^verbatim>\<open>inf\<close>, \<^verbatim>\<open>infSync\<close>).

  Conventions. A \<^verbatim>\<open>Buffer\<close> is a list of bytes. A thrown exception is the left
  summand of a result. JavaScript numbers are IEEE doubles: an operation on integers is
  exact whenever its result is below \<open>2 ^ 53\<close>. Offsets and sizes are modelled by
  unbounded \<open>nat\<close> and \<open>int\<close>; the one place where the input alone can push a
  number beyond \<open>2 ^ 53\<close>, the size accumulated by the header decoder, rounds as the
  double addition does (\<open>js_number\<close>).
\<close>

subsection \<open>Buffers and numbers\<close>

type_synonym byte = "8 word"
type_synonym buffer = "byte list"

text \<open>\<^verbatim>\<open>buff[i]\<close>: the byte, or \<^verbatim>\<open>undefined\<close> (\<open>None\<close>) past the end.\<close>

definition buffer_at :: "buffer \<Rightarrow> nat \<Rightarrow> byte option" where
  "buffer_at buff i = (if i < length buff then Some (buff ! i) else None)"

text \<open>
  The operand of a bitwise operator is converted by \<^verbatim>\<open>ToInt32\<close>, which maps
  \<^verbatim>\<open>undefined\<close> to 0. All masks used below fit in a byte.
\<close>

definition to_int32 :: "byte option \<Rightarrow> byte" where
  "to_int32 c = (case c of None \<Rightarrow> 0 | Some b \<Rightarrow> b)"

text \<open>The number of binary digits of a natural number.\<close>

fun bit_len :: "nat \<Rightarrow> nat" where
  "bit_len n = (if n = 0 then 0 else Suc (bit_len (n div 2)))"

declare bit_len.simps [simp del]

text \<open>
  The double nearest to a natural number (ties to even), for numbers below \<open>2 ^ 1024\<close>:
  the value of a JavaScript addition of two non-negative integers is \<open>js_number\<close> of
  their exact sum.
\<close>

definition js_number :: "nat \<Rightarrow> nat" where
  "js_number n =
     (if n < 2 ^ 53 then n
      else let e = bit_len n - 53;
               q = n div 2 ^ e;
               r = n mod 2 ^ e;
               h = 2 ^ (e - 1)
           in if h < r \<or> (r = h \<and> odd q) then (q + 1) * 2 ^ e else q * 2 ^ e)"

subsection \<open>The object header: class \<^verbatim>\<open>PackedObject\<close>\<close>

record PackedIndex =
  offset :: int
  fileIndex :: nat

record PackedObject =
  po_type :: nat
  po_size :: nat
  po_offset :: nat

text \<open>
  The \<^verbatim>\<open>while (c & 0x80)\<close> loop of the constructor, on the variables
  \<^verbatim>\<open>c\<close>, \<^verbatim>\<open>size\<close>, \<^verbatim>\<open>offset\<close> and \<^verbatim>\<open>x\<close>. It ends at the latest one step
  after the read has left the buffer, since \<^verbatim>\<open>undefined & 0x80\<close> is 0.
\<close>

function PackedObject_loop ::
  "buffer \<Rightarrow> byte option \<Rightarrow> nat \<Rightarrow> nat \<Rightarrow> nat \<Rightarrow> nat \<times> nat" where
  "PackedObject_loop buff c sz off x =
     (if to_int32 c AND 0x80 \<noteq> 0 then
        let c' = buffer_at buff off
        in PackedObject_loop buff c'
             (js_number (sz + unat (to_int32 c' AND 0x7f) * x)) (off + 1) (x * 128)
      else (sz, off))"
  by pat_completeness auto
termination
  by (relation "measure (\<lambda>(buff, c, sz, off, x).
        (if to_int32 c AND 0x80 \<noteq> 0 then 1 else 0) + 2 * (length buff - off))")
     (auto simp: buffer_at_def to_int32_def)

declare PackedObject_loop.simps [simp del]

definition PackedObject :: "PackedIndex \<Rightarrow> buffer \<Rightarrow> PackedObject" where
  "PackedObject idx buff =
     (let c = buffer_at buff 0;
          type = unat (drop_bit 4 (to_int32 c) AND 7);
          sz = unat (to_int32 c AND 15);
          (sz', off') = PackedObject_loop buff c sz 1 16
      in \<lparr>po_type = type, po_size = sz', po_offset = off'\<rparr>)"

subsection \<open>Errors\<close>

text \<open>
  What the code throws: the \<^verbatim>\<open>RangeError\<close> of a buffer read out of range, the two
  \<^verbatim>\<open>Error\<close>s raised in \<^verbatim>\<open>pack.ts\<close>, an error of \<^verbatim>\<open>zlib\<close> (with its
  \<^verbatim>\<open>errno\<close>), an error of \<^verbatim>\<open>fs\<close> (with its code), and an error raised by the
  module \<^verbatim>\<open>./delta\<close>.
\<close>

datatype js_error =
    RangeError
  | NotFound string
  | InvalidObjectType nat
  | ZlibError int
  | IOError string
  | DeltaError string

subsection \<open>Reading numbers and hashes from a buffer\<close>

text \<open>
  \<^verbatim>\<open>Buffer.readUInt32BE(offset)\<close> belongs to the Node runtime, and its treatment of
  the offset changed with Node 10: before, the offset is coerced by \<^verbatim>\<open>offset >>> 0\<close>
  (so it is taken modulo \<open>2 ^ 32\<close>) and then checked against the length; since, it is
  checked as it is. Both throw a \<^verbatim>\<open>RangeError\<close> when the checked offset is out of
  range. The model takes the runtime's behaviour as a parameter.
\<close>

datatype node_buffer = OffsetCoerced | OffsetChecked

definition be_value :: "buffer \<Rightarrow> nat" where
  "be_value bs = foldl (\<lambda>v b. v * 256 + unat b) 0 bs"

definition read_offset :: "node_buffer \<Rightarrow> nat \<Rightarrow> nat" where
  "read_offset api off = (case api of OffsetCoerced \<Rightarrow> off mod 2 ^ 32 | OffsetChecked \<Rightarrow> off)"

definition readUIntBE :: "nat \<Rightarrow> node_buffer \<Rightarrow> buffer \<Rightarrow> nat \<Rightarrow> js_error + nat" where
  "readUIntBE w api buf off =
     (let p = read_offset api off
      in if p + w \<le> length buf then Inr (be_value (take w (drop p buf)))
         else Inl RangeError)"

definition readUInt32BE :: "node_buffer \<Rightarrow> buffer \<Rightarrow> nat \<Rightarrow> js_error + nat" where
  "readUInt32BE = readUIntBE 4"

definition readUInt16BE :: "node_buffer \<Rightarrow> buffer \<Rightarrow> nat \<Rightarrow> js_error + nat" where
  "readUInt16BE = readUIntBE 2"

definition hex_digit :: "nat \<Rightarrow> char" where
  "hex_digit n = ''0123456789abcdef'' ! n"

definition hex_byte :: "byte \<Rightarrow> string" where
  "hex_byte b = [hex_digit (unat b div 16), hex_digit (unat b mod 16)]"

text \<open>
  \<^verbatim>\<open>readHash\<close>: \<^verbatim>\<open>buff.slice(offset, offset + 20).toString('hex')\<close>. The slice
  is clamped to the buffer, so the result is shorter than 40 characters near the end.
\<close>

definition readHash :: "buffer \<Rightarrow> nat \<Rightarrow> string" where
  "readHash buff off = concat (map hex_byte (take 20 (drop off buff)))"

subsection \<open>The index parser: \<^verbatim>\<open>setupPackedIndexMap\<close>\<close>

type_synonym PackedIndexMap = "string \<rightharpoonup> PackedIndex"

text \<open>
  \<^verbatim>\<open>offset & 0x80000000\<close> on the result of \<^verbatim>\<open>readUInt32BE\<close>: the operands are
  converted to 32-bit integers, and the result is non-zero when bit 31 is set.
\<close>

definition high_bit_set :: "nat \<Rightarrow> bool" where
  "high_bit_set v = ((word_of_nat v :: 32 word) AND 0x80000000 \<noteq> 0)"

text \<open>
  The loop of the version 2 branch. The first argument counts the iterations that
  remain (\<^verbatim>\<open>n - i\<close>); \<^verbatim>\<open>index\<close>, \<^verbatim>\<open>off32\<close> and \<^verbatim>\<open>off64\<close> are the loop's
  variables. In the large-offset branch the source reads 32 bits at
  \<^verbatim>\<open>off64 * 4294967296\<close>, then 16 bits at \<^verbatim>\<open>off64 + 4\<close>, adds the two, and
  advances \<^verbatim>\<open>off64\<close> by 8.
\<close>

fun v2_entries ::
  "node_buffer \<Rightarrow> buffer \<Rightarrow> nat \<Rightarrow> nat \<Rightarrow> nat \<Rightarrow> nat \<Rightarrow> nat \<Rightarrow> PackedIndexMap
     \<Rightarrow> js_error + PackedIndexMap" where
  "v2_entries api buf fi 0 index off32 off64 m = Inr m"
| "v2_entries api buf fi (Suc k) index off32 off64 m =
     (let hash = readHash buf index
      in case readUInt32BE api buf off32 of
           Inl e \<Rightarrow> Inl e
         | Inr off \<Rightarrow>
             if high_bit_set off then
               (case readUInt32BE api buf (off64 * 4294967296) of
                  Inl e \<Rightarrow> Inl e
                | Inr hi \<Rightarrow>
                    (case readUInt16BE api buf (off64 + 4) of
                       Inl e \<Rightarrow> Inl e
                     | Inr lo \<Rightarrow>
                         v2_entries api buf fi k (index + 20) (off32 + 4) (off64 + 4 + 4)
                           (m(hash \<mapsto> \<lparr>offset = int (hi + lo), fileIndex = fi\<rparr>))))
             else
               v2_entries api buf fi k (index + 20) (off32 + 4) off64
                 (m(hash \<mapsto> \<lparr>offset = int off, fileIndex = fi\<rparr>)))"

text \<open>The loop of the version 1 branch: a 4-byte offset, then the 20-byte hash.\<close>

fun v1_entries ::
  "node_buffer \<Rightarrow> buffer \<Rightarrow> nat \<Rightarrow> nat \<Rightarrow> nat \<Rightarrow> PackedIndexMap
     \<Rightarrow> js_error + PackedIndexMap" where
  "v1_entries api buf fi 0 index m = Inr m"
| "v1_entries api buf fi (Suc k) index m =
     (case readUInt32BE api buf index of
        Inl e \<Rightarrow> Inl e
      | Inr off \<Rightarrow>
          let hash = readHash buf (index + 4)
          in v1_entries api buf fi k (index + 4 + 20)
               (m(hash \<mapsto> \<lparr>offset = int off, fileIndex = fi\<rparr>)))"

definition setupPackedIndexMap ::
  "node_buffer \<Rightarrow> buffer \<Rightarrow> nat \<Rightarrow> PackedIndexMap \<Rightarrow> js_error + PackedIndexMap" where
  "setupPackedIndexMap api idxFileBuffer fi m =
     (case readUInt32BE api idxFileBuffer 0 of
        Inl e \<Rightarrow> Inl e
      | Inr magic \<Rightarrow>
          (case (if magic = 0xff744f63
                 then (case readUInt32BE api idxFileBuffer 4 of
                         Inl e \<Rightarrow> Inl e
                       | Inr v \<Rightarrow> Inr (v, 255 * 4 + 8))
                 else Inr (1, 255 * 4)) of
             Inl e \<Rightarrow> Inl e
           | Inr (idxVersion, index0) \<Rightarrow>
               (case readUInt32BE api idxFileBuffer index0 of
                  Inl e \<Rightarrow> Inl e
                | Inr n \<Rightarrow>
                    let index = index0 + 4
                    in if 1 < idxVersion then
                         let off32 = index + n * 24;
                             off64 = off32 + n * 4
                         in v2_entries api idxFileBuffer fi n index off32 off64 m
                       else v1_entries api idxFileBuffer fi n index m)))"

subsection \<open>The environment: file system, zlib and the module \<^verbatim>\<open>./delta\<close>\<close>

text \<open>
  The code calls Node's \<^verbatim>\<open>fs\<close>, \<^verbatim>\<open>path\<close> and \<^verbatim>\<open>zlib\<close>, and the functions
  \<^verbatim>\<open>patchDelta\<close> and \<^verbatim>\<open>readBaseOffset\<close> of \<^verbatim>\<open>./delta\<close>, whose source is not
  part of \<^verbatim>\<open>pack.ts\<close>. They are parameters of the model:
  \<^item> \<open>path_join\<close> is \<^verbatim>\<open>path.join\<close>;
  \<^item> \<open>readdir\<close> and \<open>readFile\<close> give the result of listing a directory and of
    reading a whole file;
  \<^item> \<open>open_file\<close> gives the descriptor of a file opened for reading;
  \<^item> \<open>pread fd n pos\<close> gives the bytes that a read of at most \<open>n\<close> bytes at
    position \<open>pos\<close> delivers (fewer than \<open>n\<close> at the end of the file);
  \<^item> \<open>uninitialised n i\<close> is byte \<open>i\<close> of a fresh \<^verbatim>\<open>Buffer.allocUnsafe(n)\<close>;
  \<^item> \<open>inflate\<close> is \<^verbatim>\<open>zlib.inflateSync\<close> (and \<^verbatim>\<open>zlib.inflate\<close>): the inflated
    bytes, or the \<^verbatim>\<open>errno\<close> of the error it throws;
  \<^item> \<open>patchDelta\<close> and \<open>readBaseOffset\<close> are the functions of \<^verbatim>\<open>./delta\<close>;
  \<^item> \<open>buffer_api\<close> is the runtime's treatment of read offsets.
  Closing a descriptor that the code has opened succeeds, and a buffer of any size can
  be allocated: the model has no bound on memory or on the length of a buffer.
\<close>

record env =
  path_join :: "string list \<Rightarrow> string"
  readdir :: "string \<Rightarrow> js_error + string list"
  readFile :: "string \<Rightarrow> js_error + buffer"
  open_file :: "string \<Rightarrow> js_error + nat"
  pread :: "nat \<Rightarrow> nat \<Rightarrow> int \<Rightarrow> js_error + buffer"
  uninitialised :: "nat \<Rightarrow> nat \<Rightarrow> byte"
  inflate :: "buffer \<Rightarrow> int + buffer"
  patchDelta :: "buffer \<Rightarrow> buffer \<Rightarrow> js_error + buffer"
  readBaseOffset :: "buffer \<Rightarrow> nat \<Rightarrow> js_error + (int \<times> nat)"
  buffer_api :: node_buffer

text \<open>The calls of \<^verbatim>\<open>fs\<close> that the code makes, as they are recorded in a trace.\<close>

datatype io_event =
    ReadDir string
  | ReadFile string
  | Open string
  | Read nat int nat
  | Close nat

definition alloc :: "nat \<Rightarrow> buffer" where
  "alloc n = replicate n 0"

definition allocUnsafe :: "env \<Rightarrow> nat \<Rightarrow> buffer" where
  "allocUnsafe env n = map (uninitialised env n) [0..<n]"

text \<open>
  \<^verbatim>\<open>fs.readSync(fd, buff, 0, buff.length, position)\<close>: the bytes read overwrite the
  front of the buffer, the rest keeps its content.
\<close>

definition readSync :: "env \<Rightarrow> nat \<Rightarrow> buffer \<Rightarrow> int \<Rightarrow> js_error + buffer" where
  "readSync env fd buff position =
     (case pread env fd (length buff) position of
        Inl e \<Rightarrow> Inl e
      | Inr bs \<Rightarrow> let got = take (length buff) bs in Inr (got @ drop (length got) buff))"

subsection \<open>The store: class \<^verbatim>\<open>Packs\<close>\<close>

text \<open>
  The fields of the class that are set by the constructor. \<open>instance\<close> is the identity
  of the object: the number of \<^verbatim>\<open>Packs\<close> objects constructed before it. The one
  mutable field, \<^verbatim>\<open>_packedObjectCache\<close>, is passed as state (\<open>store_state\<close>). Its
  keys are the strings \<^verbatim>\<open>`${idx.fileIndex}:${idx.offset}`\<close>, which determine the pair
  of numbers; the model keys the cache by the pair.
\<close>

record Packs =
  packDir :: string
  packFileNames :: "string list"
  packedIndexMap :: PackedIndexMap
  hasPackFiles :: bool
  "instance" :: nat

record store_state =
  packedObjectCache :: "(nat \<times> int) \<rightharpoonup> buffer"
  io_trace :: "io_event list"

definition trace :: "io_event \<Rightarrow> store_state \<Rightarrow> store_state" where
  "trace ev st = st\<lparr>io_trace := io_trace st @ [ev]\<rparr>"

subsection \<open>The registry: \<^verbatim>\<open>packsCache\<close> and \<^verbatim>\<open>processings\<close>\<close>

text \<open>
  \<^verbatim>\<open>packsCache = LRU<Packs>(4)\<close> is a cache of the package \<^verbatim>\<open>lru-cache\<close>, which
  is not part of this repository. Modelled from its documentation: the entries are kept
  in order of use, the most recent first; \<^verbatim>\<open>get\<close> moves the entry it finds to the
  front; \<^verbatim>\<open>set\<close> puts the entry at the front and drops the entries beyond the
  capacity from the back.
\<close>

type_synonym 'v lru = "(string \<times> 'v) list"

definition lru_get :: "string \<Rightarrow> 'v lru \<Rightarrow> 'v option \<times> 'v lru" where
  "lru_get k c =
     (case map_of c k of
        None \<Rightarrow> (None, c)
      | Some v \<Rightarrow> (Some v, (k, v) # filter (\<lambda>e. fst e \<noteq> k) c))"

definition lru_set :: "nat \<Rightarrow> string \<Rightarrow> 'v \<Rightarrow> 'v lru \<Rightarrow> 'v lru" where
  "lru_set capacity k v c = take capacity ((k, v) # filter (\<lambda>e. fst e \<noteq> k) c)"

text \<open>
  The module's state. \<^verbatim>\<open>processings\<close> is declared as a dictionary from directory
  names to promises, and is modelled as a map. The functions below run one call to its
  end, so a promise is represented by the result it settles to.
\<close>

record registry =
  packsCache :: "Packs lru"
  processings :: "string \<rightharpoonup> (js_error + Packs)"
  io_log :: "io_event list"
  instances :: nat

definition log_io :: "io_event \<Rightarrow> registry \<Rightarrow> registry" where
  "log_io ev st = st\<lparr>io_log := io_log st @ [ev]\<rparr>"

text \<open>
  The constructor: \<^verbatim>\<open>packFileNames\<close> defaults to \<^verbatim>\<open>[]\<close>, \<^verbatim>\<open>packedIndexMap\<close> to
  a new map, and \<^verbatim>\<open>hasPackFiles\<close> is \<^verbatim>\<open>!!this.packFileNames.length\<close>.
\<close>

definition new_Packs ::
  "string \<Rightarrow> string list \<Rightarrow> PackedIndexMap \<Rightarrow> registry \<Rightarrow> Packs \<times> registry" where
  "new_Packs dir names m st =
     (\<lparr>packDir = dir, packFileNames = names, packedIndexMap = m,
       hasPackFiles = (length names \<noteq> 0), instance = instances st\<rparr>,
      st\<lparr>instances := Suc (instances st)\<rparr>)"

text \<open>
  \<^verbatim>\<open>.filter(name => /\.idx$/.test(name))\<close> keeps the names that end in
  \<^verbatim>\<open>.idx\<close>; \<^verbatim>\<open>.map(name => name.split(".").shift())\<close> keeps of each name what
  precedes its first dot.
\<close>

definition is_idx :: "string \<Rightarrow> bool" where
  "is_idx name = (4 \<le> length name \<and> drop (length name - 4) name = ''.idx'')"

definition base_name :: "string \<Rightarrow> string" where
  "base_name name = takeWhile (\<lambda>c. c \<noteq> CHR ''.'') name"

text \<open>
  The loop over \<^verbatim>\<open>fileNames\<close> in \<^verbatim>\<open>_initialize\<close> and \<^verbatim>\<open>initializeSync\<close>: the
  index file of each name is read and parsed into the shared map, with the position of
  the name as its \<^verbatim>\<open>fileIndex\<close>.
\<close>

fun load_indexes ::
  "env \<Rightarrow> string \<Rightarrow> string list \<Rightarrow> nat \<Rightarrow> PackedIndexMap \<Rightarrow> registry
     \<Rightarrow> (js_error + PackedIndexMap) \<times> registry" where
  "load_indexes env dir [] i m st = (Inr m, st)"
| "load_indexes env dir (name # names) i m st =
     (let file = path_join env [dir, name @ ''.idx''];
          st' = log_io (ReadFile file) st
      in case readFile env file of
           Inl e \<Rightarrow> (Inl e, st')
         | Inr buff \<Rightarrow>
             (case setupPackedIndexMap (buffer_api env) buff i m of
                Inl e \<Rightarrow> (Inl e, st')
              | Inr m' \<Rightarrow> load_indexes env dir names (Suc i) m' st'))"

text \<open>\<^verbatim>\<open>Packs._initialize\<close>, the build of a store.\<close>

definition p_initialize :: "env \<Rightarrow> string \<Rightarrow> registry \<Rightarrow> (js_error + Packs) \<times> registry" where
  "p_initialize env gitDir st =
     (let dir = path_join env [gitDir, ''objects'', ''pack''];
          st1 = log_io (ReadDir dir) st
      in case readdir env dir of
           Inl e \<Rightarrow> (case new_Packs gitDir [] Map.empty st1 of (packs, st2) \<Rightarrow> (Inr packs, st2))
         | Inr names \<Rightarrow>
             let fileNames = map base_name (filter is_idx names)
             in if length fileNames = 0 then
                  (case new_Packs gitDir [] Map.empty st1 of (packs, st2) \<Rightarrow> (Inr packs, st2))
                else
                  (case load_indexes env dir fileNames 0 Map.empty st1 of
                     (Inl e, st2) \<Rightarrow> (Inl e, st2)
                   | (Inr m, st2) \<Rightarrow>
                       (case new_Packs dir fileNames m st2 of
                          (packs, st3) \<Rightarrow> (Inr packs, st3))))"

text \<open>
  \<^verbatim>\<open>Packs.initialize\<close>, one call run to its end. The callback of \<^verbatim>\<open>promise.then\<close>
  runs when the promise of \<^verbatim>\<open>_initialize\<close> is fulfilled; when it is rejected, the
  callback is skipped and the rejection is what the call returns.
\<close>

definition initialize :: "env \<Rightarrow> string \<Rightarrow> registry \<Rightarrow> (js_error + Packs) \<times> registry" where
  "initialize env gitDir st =
     (case lru_get gitDir (packsCache st) of
        (Some packs, c) \<Rightarrow> (Inr packs, st\<lparr>packsCache := c\<rparr>)
      | (None, c) \<Rightarrow>
          (case processings st gitDir of
             Some promise \<Rightarrow> (promise, st\<lparr>packsCache := c\<rparr>)
           | None \<Rightarrow>
               (case p_initialize env gitDir (st\<lparr>packsCache := c\<rparr>) of
                  (promise, st1) \<Rightarrow>
                    (let st2 = st1\<lparr>processings := (processings st1)(gitDir \<mapsto> promise)\<rparr>
                     in (case promise of
                           Inl e \<Rightarrow> (Inl e, st2)
                         | Inr packs \<Rightarrow>
                             (Inr packs,
                              st2\<lparr>processings := (processings st2)(gitDir := None),
                                  packsCache := lru_set 4 gitDir packs (packsCache st2)\<rparr>))))))"


subsection \<open>Decompression with retry: \<^verbatim>\<open>infSync\<close> and \<^verbatim>\<open>inf\<close>\<close>

text \<open>
  \<^verbatim>\<open>infSync(fd, idx, po, size)\<close> allocates \<^verbatim>\<open>size\<close> bytes, fills them from the
  file at \<^verbatim>\<open>idx.offset + po.offset\<close> and inflates them; when \<^verbatim>\<open>zlib\<close> throws
  with \<^verbatim>\<open>errno\<close> \<open>-5\<close> (\<^verbatim>\<open>Z_BUF_ERROR\<close>) it calls itself with
  \<^verbatim>\<open>size + 128\<close>, and it rethrows any other error. Nothing bounds the number of
  retries, so the model carries fuel: the first argument bounds the number of calls, and
  \<open>None\<close> says that the fuel did not suffice.
\<close>

definition Z_BUF_ERROR :: int where
  "Z_BUF_ERROR = - 5"

fun infSync ::
  "nat \<Rightarrow> env \<Rightarrow> nat \<Rightarrow> PackedIndex \<Rightarrow> PackedObject \<Rightarrow> nat \<Rightarrow> store_state
     \<Rightarrow> ((js_error + buffer) \<times> store_state) option" where
  "infSync 0 env fd idx po sz st = None"
| "infSync (Suc fuel) env fd idx po sz st =
     (let buff = allocUnsafe env sz;
          position = offset idx + int (po_offset po);
          st' = trace (Read fd position (length buff)) st
      in case readSync env fd buff position of
           Inl e \<Rightarrow> Some (Inl e, st')
         | Inr buff' \<Rightarrow>
             (case inflate env buff' of
                Inr out \<Rightarrow> Some (Inr out, st')
              | Inl errno \<Rightarrow>
                  if errno \<noteq> Z_BUF_ERROR then Some (Inl (ZlibError errno), st')
                  else infSync fuel env fd idx po (sz + 128) st'))"

text \<open>The default value of the parameter \<^verbatim>\<open>size\<close>: \<^verbatim>\<open>po.size * 2 + 32\<close>.\<close>

definition default_size :: "PackedObject \<Rightarrow> nat" where
  "default_size po = po_size po * 2 + 32"

text \<open>
  \<^verbatim>\<open>inf\<close> is the same function with \<^verbatim>\<open>await\<close>ed calls. The asynchronous
  functions are modelled as one call run to its end, with no other call interleaved.
\<close>

fun infAsync ::
  "nat \<Rightarrow> env \<Rightarrow> nat \<Rightarrow> PackedIndex \<Rightarrow> PackedObject \<Rightarrow> nat \<Rightarrow> store_state
     \<Rightarrow> ((js_error + buffer) \<times> store_state) option" where
  "infAsync 0 env fd idx po sz st = None"
| "infAsync (Suc fuel) env fd idx po sz st =
     (let buff = allocUnsafe env sz;
          position = offset idx + int (po_offset po);
          st' = trace (Read fd position (length buff)) st
      in case readSync env fd buff position of
           Inl e \<Rightarrow> Some (Inl e, st')
         | Inr buff' \<Rightarrow>
             (case inflate env buff' of
                Inr out \<Rightarrow> Some (Inr out, st')
              | Inl errno \<Rightarrow>
                  if errno \<noteq> Z_BUF_ERROR then Some (Inl (ZlibError errno), st')
                  else infAsync fuel env fd idx po (sz + 128) st'))"

subsection \<open>Object resolution\<close>

definition COMMIT :: nat where "COMMIT = 1"
definition TREE :: nat where "TREE = 2"
definition BLOB :: nat where "BLOB = 3"
definition TAG :: nat where "TAG = 4"
definition OFS_DELTA :: nat where "OFS_DELTA = 6"
definition REF_DELTA :: nat where "REF_DELTA = 7"

text \<open>
  The private methods of \<^verbatim>\<open>Packs\<close> carry the prefix \<open>p_\<close> in place of the
  underscore of the source.
\<close>

definition p_getPackedIndexFromCache :: "Packs \<Rightarrow> string \<Rightarrow> js_error + PackedIndex" where
  "p_getPackedIndexFromCache packs hash =
     (case packedIndexMap packs hash of
        None \<Rightarrow> Inl (NotFound hash)
      | Some idx \<Rightarrow> Inr idx)"

definition p_getPackedObjectBufferFromCach :: "store_state \<Rightarrow> PackedIndex \<Rightarrow> buffer option" where
  "p_getPackedObjectBufferFromCach st idx = packedObjectCache st (fileIndex idx, offset idx)"

definition p_setPackedObjectBuffrToCache ::
  "PackedIndex \<Rightarrow> buffer \<Rightarrow> store_state \<Rightarrow> store_state" where
  "p_setPackedObjectBuffrToCache idx buff st =
     st\<lparr>packedObjectCache := (packedObjectCache st)((fileIndex idx, offset idx) \<mapsto> buff)\<rparr>"

text \<open>
  \<^verbatim>\<open>this.packFileNames[idx.fileIndex] + '.pack'\<close>: an index beyond the list gives
  \<^verbatim>\<open>undefined\<close>, which the concatenation turns into the string \<^verbatim>\<open>undefined\<close>.
\<close>

definition p_getPackFilePath :: "env \<Rightarrow> Packs \<Rightarrow> PackedIndex \<Rightarrow> string" where
  "p_getPackFilePath env packs idx =
     path_join env
       [packDir packs,
        (if fileIndex idx < length (packFileNames packs)
         then packFileNames packs ! fileIndex idx else ''undefined'') @ ''.pack'']"

text \<open>
  \<^verbatim>\<open>unpackGitObjectSync\<close>, \<^verbatim>\<open>_unpackGitObjectSync\<close> and
  \<^verbatim>\<open>_unpackDeltaObjectSync\<close> call each other, and nothing in the code bounds the
  depth of a chain of deltas. The first argument is fuel: it bounds the nesting of
  \<^verbatim>\<open>_unpackGitObjectSync\<close>, and \<open>None\<close> says that the fuel did not suffice.
  In \<^verbatim>\<open>_unpackGitObjectSync\<close> the variable \<^verbatim>\<open>dst\<close> stays \<^verbatim>\<open>undefined\<close> for a
  type that the \<^verbatim>\<open>switch\<close> has no case for, and the check \<^verbatim>\<open>if (!dst)\<close> throws.
\<close>

fun unpackGitObjectSync ::
  "nat \<Rightarrow> env \<Rightarrow> Packs \<Rightarrow> string \<Rightarrow> store_state
     \<Rightarrow> ((js_error + buffer) \<times> store_state) option"
and p_unpackGitObjectSync ::
  "nat \<Rightarrow> env \<Rightarrow> Packs \<Rightarrow> nat \<Rightarrow> PackedIndex \<Rightarrow> store_state
     \<Rightarrow> ((js_error + buffer) \<times> store_state) option"
and p_unpackDeltaObjectSync ::
  "nat \<Rightarrow> env \<Rightarrow> Packs \<Rightarrow> nat \<Rightarrow> PackedIndex \<Rightarrow> PackedObject \<Rightarrow> buffer \<Rightarrow> store_state
     \<Rightarrow> ((js_error + buffer) \<times> store_state) option"
where
  "unpackGitObjectSync fuel env packs hash st =
     (case p_getPackedIndexFromCache packs hash of
        Inl e \<Rightarrow> Some (Inl e, st)
      | Inr idx \<Rightarrow>
          (case p_getPackedObjectBufferFromCach st idx of
             Some dst \<Rightarrow> Some (Inr dst, st)
           | None \<Rightarrow>
               (let file = p_getPackFilePath env packs idx;
                    st1 = trace (Open file) st
                in case open_file env file of
                     Inl e \<Rightarrow> Some (Inl e, st1)
                   | Inr fd \<Rightarrow>
                       (case p_unpackGitObjectSync fuel env packs fd idx st1 of
                          None \<Rightarrow> None
                        | Some (r, st2) \<Rightarrow> Some (r, trace (Close fd) st2)))))"
| "p_unpackGitObjectSync 0 env packs fd idx st = None"
| "p_unpackGitObjectSync (Suc fuel) env packs fd idx st =
     (case p_getPackedObjectBufferFromCach st idx of
        Some dst \<Rightarrow> Some (Inr dst, st)
      | None \<Rightarrow>
          (let st1 = trace (Read fd (offset idx) 32) st
           in case readSync env fd (alloc 32) (offset idx) of
                Inl e \<Rightarrow> Some (Inl e, st1)
              | Inr head \<Rightarrow>
                  (let po = PackedObject idx head
                   in case (if po_type po = COMMIT \<or> po_type po = TAG then
                              infSync fuel env fd idx po (default_size po) st1
                            else if po_type po = OFS_DELTA \<or> po_type po = REF_DELTA then
                              p_unpackDeltaObjectSync fuel env packs fd idx po head st1
                            else Some (Inl (InvalidObjectType (po_type po)), st1)) of
                        None \<Rightarrow> None
                      | Some (Inl e, st2) \<Rightarrow> Some (Inl e, st2)
                      | Some (Inr dst, st2) \<Rightarrow>
                          Some (Inr dst, p_setPackedObjectBuffrToCache idx dst st2))))"
| "p_unpackDeltaObjectSync fuel env packs fd idx po head st =
     (case (if po_type po = OFS_DELTA then
              (case readBaseOffset env head (po_offset po) of
                 Inl e \<Rightarrow> Some (Inl e, st)
               | Inr (baseOffset, off) \<Rightarrow>
                   (case p_unpackGitObjectSync fuel env packs fd
                           \<lparr>offset = offset idx - baseOffset, fileIndex = fileIndex idx\<rparr> st of
                      None \<Rightarrow> None
                    | Some (Inl e, st1) \<Rightarrow> Some (Inl e, st1)
                    | Some (Inr src, st1) \<Rightarrow> Some (Inr (src, po\<lparr>po_offset := off\<rparr>), st1)))
            else
              (case unpackGitObjectSync fuel env packs (readHash head (po_offset po)) st of
                 None \<Rightarrow> None
               | Some (Inl e, st1) \<Rightarrow> Some (Inl e, st1)
               | Some (Inr src, st1) \<Rightarrow>
                   Some (Inr (src, po\<lparr>po_offset := po_offset po + 20\<rparr>), st1))) of
        None \<Rightarrow> None
      | Some (Inl e, st1) \<Rightarrow> Some (Inl e, st1)
      | Some (Inr (src, po'), st1) \<Rightarrow>
          (case infSync fuel env fd idx po' (default_size po') st1 of
             None \<Rightarrow> None
           | Some (Inl e, st2) \<Rightarrow> Some (Inl e, st2)
           | Some (Inr delta, st2) \<Rightarrow> Some (patchDelta env src delta, st2)))"

text \<open>
  \<^verbatim>\<open>unpackGitObject\<close>, \<^verbatim>\<open>_unpackGitObject\<close> and \<^verbatim>\<open>_unpackDeltaObject\<close>:
  the same three methods with \<^verbatim>\<open>await\<close>ed calls, one call run to its end.
\<close>

fun unpackGitObject ::
  "nat \<Rightarrow> env \<Rightarrow> Packs \<Rightarrow> string \<Rightarrow> store_state
     \<Rightarrow> ((js_error + buffer) \<times> store_state) option"
and p_unpackGitObject ::
  "nat \<Rightarrow> env \<Rightarrow> Packs \<Rightarrow> nat \<Rightarrow> PackedIndex \<Rightarrow> store_state
     \<Rightarrow> ((js_error + buffer) \<times> store_state) option"
and p_unpackDeltaObject ::
  "nat \<Rightarrow> env \<Rightarrow> Packs \<Rightarrow> nat \<Rightarrow> PackedIndex \<Rightarrow> PackedObject \<Rightarrow> buffer \<Rightarrow> store_state
     \<Rightarrow> ((js_error + buffer) \<times> store_state) option"
where
  "unpackGitObject fuel env packs hash st =
     (case p_getPackedIndexFromCache packs hash of
        Inl e \<Rightarrow> Some (Inl e, st)
      | Inr idx \<Rightarrow>
          (case p_getPackedObjectBufferFromCach st idx of
             Some dst \<Rightarrow> Some (Inr dst, st)
           | None \<Rightarrow>
               (let file = p_getPackFilePath env packs idx;
                    st1 = trace (Open file) st
                in case open_file env file of
                     Inl e \<Rightarrow> Some (Inl e, st1)
                   | Inr fd \<Rightarrow>
                       (case p_unpackGitObject fuel env packs fd idx st1 of
                          None \<Rightarrow> None
                        | Some (r, st2) \<Rightarrow> Some (r, trace (Close fd) st2)))))"
| "p_unpackGitObject 0 env packs fd idx st = None"
| "p_unpackGitObject (Suc fuel) env packs fd idx st =
     (case p_getPackedObjectBufferFromCach st idx of
        Some dst \<Rightarrow> Some (Inr dst, st)
      | None \<Rightarrow>
          (let st1 = trace (Read fd (offset idx) 32) st
           in case readSync env fd (alloc 32) (offset idx) of
                Inl e \<Rightarrow> Some (Inl e, st1)
              | Inr head \<Rightarrow>
                  (let po = PackedObject idx head
                   in case (if po_type po = COMMIT \<or> po_type po = TAG then
                              infAsync fuel env fd idx po (default_size po) st1
                            else if po_type po = OFS_DELTA \<or> po_type po = REF_DELTA then
                              p_unpackDeltaObject fuel env packs fd idx po head st1
                            else Some (Inl (InvalidObjectType (po_type po)), st1)) of
                        None \<Rightarrow> None
                      | Some (Inl e, st2) \<Rightarrow> Some (Inl e, st2)
                      | Some (Inr dst, st2) \<Rightarrow>
                          Some (Inr dst, p_setPackedObjectBuffrToCache idx dst st2))))"
| "p_unpackDeltaObject fuel env packs fd idx po head st =
     (case (if po_type po = OFS_DELTA then
              (case readBaseOffset env head (po_offset po) of
                 Inl e \<Rightarrow> Some (Inl e, st)
               | Inr (baseOffset, off) \<Rightarrow>
                   (case p_unpackGitObject fuel env packs fd
                           \<lparr>offset = offset idx - baseOffset, fileIndex = fileIndex idx\<rparr> st of
                      None \<Rightarrow> None
                    | Some (Inl e, st1) \<Rightarrow> Some (Inl e, st1)
                    | Some (Inr src, st1) \<Rightarrow> Some (Inr (src, po\<lparr>po_offset := off\<rparr>), st1)))
            else
              (case unpackGitObject fuel env packs (readHash head (po_offset po)) st of
                 None \<Rightarrow> None
               | Some (Inl e, st1) \<Rightarrow> Some (Inl e, st1)
               | Some (Inr src, st1) \<Rightarrow>
                   Some (Inr (src, po\<lparr>po_offset := po_offset po + 20\<rparr>), st1))) of
        None \<Rightarrow> None
      | Some (Inl e, st1) \<Rightarrow> Some (Inl e, st1)
      | Some (Inr (src, po'), st1) \<Rightarrow>
          (case infAsync fuel env fd idx po' (default_size po') st1 of
             None \<Rightarrow> None
           | Some (Inl e, st2) \<Rightarrow> Some (Inl e, st2)
           | Some (Inr delta, st2) \<Rightarrow> Some (patchDelta env src delta, st2)))"

subsection \<open>The object header in closed form\<close>

text \<open>
  The header as the format describes it, in arithmetic on the bytes: byte \<open>i\<close> of
  the buffer (0 past its end), the number of leading bytes with bit 7 set, and the
  contribution of the continuation byte \<open>i\<close> to the size.
\<close>

definition header_byte :: "buffer \<Rightarrow> nat \<Rightarrow> nat" where
  "header_byte buff i = (if i < length buff then unat (buff ! i) else 0)"

definition continuation_count :: "buffer \<Rightarrow> nat" where
  "continuation_count buff = length (takeWhile (\<lambda>b. 128 \<le> unat b) buff)"

definition header_term :: "buffer \<Rightarrow> nat \<Rightarrow> nat" where
  "header_term buff i = (header_byte buff i mod 128) * (16 * 128 ^ (i - 1))"

text \<open>A lookahead buffer holding the two-byte header of a commit of size 95.\<close>

definition header_example :: buffer where
  "header_example = [0x9F, 0x05] @ replicate 30 0"


subsection \<open>Notions used in the statements\<close>

text \<open>The kinds that \<^verbatim>\<open>_unpackGitObject\<close> has a \<^verbatim>\<open>case\<close> for.\<close>

definition dispatched :: "nat \<Rightarrow> bool" where
  "dispatched t = (t = COMMIT \<or> t = TAG \<or> t = OFS_DELTA \<or> t = REF_DELTA)"



text \<open>
  The pack subdirectory of \<open>gitDir\<close> cannot be listed, or its listing holds no name
  that ends in \<^verbatim>\<open>.idx\<close>.
\<close>

definition no_index_files :: "env \<Rightarrow> string \<Rightarrow> bool" where
  "no_index_files env gitDir =
     (case readdir env (path_join env [gitDir, ''objects'', ''pack'']) of
        Inl e \<Rightarrow> True
      | Inr names \<Rightarrow> filter is_idx names = [])"


text \<open>
  The offset that the index format documents for an entry of the 32-bit table with its
  high bit set: the 8-byte big-endian entry of the 64-bit table, which starts at
  \<open>table\<close>, at the position given by the low 31 bits.
\<close>

definition documented_offset :: "buffer \<Rightarrow> nat \<Rightarrow> nat \<Rightarrow> nat" where
  "documented_offset buf table entry = be_value (take 8 (drop (table + 8 * (entry mod 2 ^ 31)) buf))"


subsection \<open>Example data\<close>

text \<open>
  A small environment on which the functions can be run. Paths are joined with a slash.
  \<open>stored_inflate\<close> stands for \<^verbatim>\<open>zlib\<close>: a stream is a length byte followed by
  that many payload bytes; a stream cut short gives \<^verbatim>\<open>Z_BUF_ERROR\<close>, and the length
  byte \<open>0xFF\<close> gives \<^verbatim>\<open>Z_DATA_ERROR\<close> (\<open>-3\<close>). A patch appends the delta to its
  base, and a backward distance is one byte.
\<close>

fun join_slash :: "string list \<Rightarrow> string" where
  "join_slash [] = ''.''"
| "join_slash [p] = p"
| "join_slash (p # q # ps) = p @ ''/'' @ join_slash (q # ps)"

definition stored_inflate :: "buffer \<Rightarrow> int + buffer" where
  "stored_inflate buff =
     (case buff of
        [] \<Rightarrow> Inl Z_BUF_ERROR
      | b # rest \<Rightarrow>
          if b = 0xFF then Inl (- 3)
          else if length rest < unat b then Inl Z_BUF_ERROR
          else Inr (take (unat b) rest))"

text \<open>
  A pack with four objects: a commit at offset 0, an offset delta against it at offset
  5, a tree at offset 10, and a reference delta against the commit at offset 13.
\<close>

definition example_pack :: buffer where
  "example_pack =
     [0x13, 3, 0x61, 0x62, 0x63,
      0x62, 5, 2, 0x64, 0x65,
      0x21, 1, 0x7A,
      0x71] @ replicate 20 0xAB @ [1, 0x66]"

definition example_env :: env where
  "example_env =
     \<lparr>path_join = join_slash,
      readdir = (\<lambda>d. Inl (IOError ''ENOENT'')),
      readFile = (\<lambda>f. Inl (IOError ''ENOENT'')),
      open_file = (\<lambda>f. if f = ''repo/objects/pack/pack-1.pack'' then Inr 3
                        else Inl (IOError ''ENOENT'')),
      pread = (\<lambda>fd n pos. if fd = 3 \<and> 0 \<le> pos
                           then Inr (take n (drop (nat pos) example_pack))
                           else Inl (IOError ''EBADF'')),
      uninitialised = (\<lambda>n i. 0),
      inflate = stored_inflate,
      patchDelta = (\<lambda>src delta. Inr (src @ delta)),
      readBaseOffset = (\<lambda>head off. Inr (int (unat (to_int32 (buffer_at head off))), off + 1)),
      buffer_api = OffsetChecked\<rparr>"

definition hash_commit :: string where
  "hash_commit = ''abababababababababababababababababababab''"

definition hash_ofs_delta :: string where
  "hash_ofs_delta = ''0000000000000000000000000000000000000005''"

definition hash_tree :: string where
  "hash_tree = ''000000000000000000000000000000000000000a''"

definition hash_ref_delta :: string where
  "hash_ref_delta = ''000000000000000000000000000000000000000d''"

definition example_packs :: Packs where
  "example_packs =
     \<lparr>packDir = ''repo/objects/pack'', packFileNames = [''pack-1''],
      packedIndexMap =
        [hash_commit \<mapsto> \<lparr>offset = 0, fileIndex = 0\<rparr>,
         hash_ofs_delta \<mapsto> \<lparr>offset = 5, fileIndex = 0\<rparr>,
         hash_tree \<mapsto> \<lparr>offset = 10, fileIndex = 0\<rparr>,
         hash_ref_delta \<mapsto> \<lparr>offset = 13, fileIndex = 0\<rparr>],
      hasPackFiles = True, instance = 0\<rparr>"

definition tree_location :: PackedIndex where
  "tree_location = \<lparr>offset = 10, fileIndex = 0\<rparr>"





definition empty_state :: store_state where
  "empty_state = \<lparr>packedObjectCache = Map.empty, io_trace = []\<rparr>"



definition new_registry :: registry where
  "new_registry = \<lparr>packsCache = [], processings = Map.empty, io_log = [], instances = 0\<rparr>"

definition broken_env :: env where
  "broken_env =
     example_env\<lparr>readdir := (\<lambda>d. Inr [''a.idx'']), readFile := (\<lambda>f. Inr [])\<rparr>"

text \<open>
  A version 2 index of one object, whose hash is twenty bytes \<open>0xFF\<close>, whose entry
  in the 32-bit offset table has the high bit set and whose entry in the 64-bit table is
  \<open>2 ^ 32\<close>. \<open>index_tail\<close> is the file from byte 1028 on: the last entry of the
  fan-out table, the hash, the CRC, the two offset tables and the two trailing checksums.
  Before it come the header and the 255 entries of the fan-out table that count the
  hashes below \<open>0xFF\<close>.
\<close>

definition index_tail :: buffer where
  "index_tail =
     [0, 0, 0, 1]
     @ replicate 20 0xFF
     @ [0, 0, 0, 0]
     @ [0x80, 0, 0, 0]
     @ [0, 0, 0, 1, 0, 0, 0, 0]
     @ replicate 40 0"

definition large_offset_index :: buffer where
  "large_offset_index = [0xff, 0x74, 0x4f, 0x63, 0, 0, 0, 2] @ replicate 1020 0 @ index_tail"

definition hash_ff :: string where
  "hash_ff = ''ffffffffffffffffffffffffffffffffffffffff''"

subsection \<open>Unfolding of the entry points\<close>

declare unpackGitObjectSync.simps [simp del] unpackGitObject.simps [simp del]
declare p_unpackDeltaObjectSync.simps [simp del] p_unpackDeltaObject.simps [simp del]

section \<open>Properties\<close>

subsection \<open>The object header decoder\<close>

lemma bit7_odd: "bit (b::byte) 7 = odd (unat b div 128)"
proof -
  have "bit (unat b) 7 = bit b 7" by (simp add: bit_unsigned_iff)
  then show ?thesis by (simp add: bit_iff_odd)
qed

lemma odd_div_128: "n < 256 \<Longrightarrow> odd (n div 128) = (128 \<le> (n::nat))" 
proof (cases "n < 128")
  case True then show ?thesis by simp
next
  case False 
  assume "n < 256"
  with False have "n div 128 = 1" by simp
  with False show ?thesis by simp
qed

lemma bit7: "((b::byte) AND 0x80 \<noteq> 0) = (128 \<le> unat b)"
proof -
  have "(b AND 2 ^ 7 = 0) = (\<not> bit b 7)" by (rule and_exp_eq_0_iff_not_bit)
  then have "(b AND 0x80 \<noteq> 0) = bit b 7" by simp
  moreover have "unat b < 256" using unsigned_less [of b] by simp
  then have "odd (unat b div 128) = (128 \<le> unat b)" by (rule odd_div_128)
  ultimately show ?thesis using bit7_odd [of b] by blast
qed

lemma low7: "unat ((b::byte) AND 0x7f) = unat b mod 128"
proof -
  have "b AND 0x7f = take_bit 7 b" by (simp add: take_bit_eq_mask mask_eq_exp_minus_1)
  then show ?thesis by (simp add: unat_mod unsigned_take_bit_eq take_bit_eq_mod)
qed

lemma to_int32_header_byte: "unat (to_int32 (buffer_at buff i)) = header_byte buff i"
  by (simp add: to_int32_def buffer_at_def header_byte_def)

lemma continues_iff:
  "(to_int32 (buffer_at buff j) AND 0x80 \<noteq> 0) = (j < length buff \<and> 128 \<le> unat (buff ! j))"
  by (simp add: bit7 to_int32_def buffer_at_def)

lemma loop_general:
  "PackedObject_loop buff (buffer_at buff j) sz (Suc j) x =
     (foldl (\<lambda>s t. js_number (s + t)) sz
        (map (\<lambda>i. (header_byte buff i mod 128) * (x * 128 ^ (i - Suc j)))
           [Suc j..<Suc j + length (takeWhile (\<lambda>b. 128 \<le> unat b) (drop j buff))]),
      Suc j + length (takeWhile (\<lambda>b. 128 \<le> unat b) (drop j buff)))"
proof (induction "length buff - j" arbitrary: j sz x)
  case 0
  then have "drop j buff = []" by simp
  moreover have "\<not> (to_int32 (buffer_at buff j) AND 0x80 \<noteq> 0)"
    using 0 by (simp add: continues_iff)
  ultimately show ?case by (subst PackedObject_loop.simps) simp
next
  case (Suc n)
  then have j: "j < length buff" by simp
  then have dr: "drop j buff = buff ! j # drop (Suc j) buff" by (simp add: Cons_nth_drop_Suc)
  show ?case
  proof (cases "128 \<le> unat (buff ! j)")
    case False
    then have "\<not> (to_int32 (buffer_at buff j) AND 0x80 \<noteq> 0)" by (simp add: continues_iff)
    then show ?thesis using False dr by (subst PackedObject_loop.simps) simp
  next
    case True
    then have c: "to_int32 (buffer_at buff j) AND 0x80 \<noteq> 0" using j by (simp add: continues_iff)
    have n: "n = length buff - Suc j" using Suc.hyps(2) by simp
    let ?m = "length (takeWhile (\<lambda>b. 128 \<le> unat b) (drop (Suc j) buff))"
    have up: "[Suc j..<Suc j + Suc ?m] = Suc j # [Suc (Suc j)..<Suc (Suc j) + ?m]"
      by (simp add: upt_rec)
    have mp: "map (\<lambda>i. (header_byte buff i mod 128) * (x * 128 ^ (i - Suc j))) [Suc (Suc j)..<Suc (Suc j) + ?m]
       = map (\<lambda>i. (header_byte buff i mod 128) * (x * 128 * 128 ^ (i - Suc (Suc j)))) [Suc (Suc j)..<Suc (Suc j) + ?m]"
    proof (rule map_cong [OF refl])
      fix i assume "i \<in> set [Suc (Suc j)..<Suc (Suc j) + ?m]"
      then have "i - Suc j = Suc (i - Suc (Suc j))" by auto
      then show "(header_byte buff i mod 128) * (x * 128 ^ (i - Suc j)) = (header_byte buff i mod 128) * (x * 128 * 128 ^ (i - Suc (Suc j)))"
        by simp
    qed
    have "PackedObject_loop buff (buffer_at buff j) sz (Suc j) x =
        PackedObject_loop buff (buffer_at buff (Suc j))
          (js_number (sz + header_byte buff (Suc j) mod 128 * x)) (Suc (Suc j)) (x * 128)"
      using c by (subst PackedObject_loop.simps) (simp add: low7 to_int32_header_byte)
    also have "\<dots> = (foldl (\<lambda>s t. js_number (s + t)) (js_number (sz + header_byte buff (Suc j) mod 128 * x))
        (map (\<lambda>i. (header_byte buff i mod 128) * (x * 128 * 128 ^ (i - Suc (Suc j))))
           [Suc (Suc j)..<Suc (Suc j) + ?m]), Suc (Suc j) + ?m)"
      by (rule Suc.hyps(1) [OF n])
    also have "\<dots> = (foldl (\<lambda>s t. js_number (s + t)) sz
        (map (\<lambda>i. (header_byte buff i mod 128) * (x * 128 ^ (i - Suc j)))
           [Suc j..<Suc j + length (takeWhile (\<lambda>b. 128 \<le> unat b) (drop j buff))]),
      Suc j + length (takeWhile (\<lambda>b. 128 \<le> unat b) (drop j buff)))"
    proof -
      have len: "length (takeWhile (\<lambda>b. 128 \<le> unat b) (drop j buff)) = Suc ?m"
        using True by (simp add: dr)
      have hd: "(header_byte buff (Suc j) mod 128) * (x * 128 ^ (Suc j - Suc j))
          = header_byte buff (Suc j) mod 128 * x" by simp
      show ?thesis
        unfolding len up list.map foldl.simps mp hd by simp
    qed
    finally show ?thesis .
  qed
qed


lemma low4: "unat ((b::byte) AND 15) = unat b mod 16"
proof -
  have "b AND 15 = take_bit 4 b" by (simp add: take_bit_eq_mask mask_eq_exp_minus_1)
  then show ?thesis by (simp add: unat_mod unsigned_take_bit_eq take_bit_eq_mod)
qed

lemma bits46: "unat (drop_bit 4 (b::byte) AND 7) = (unat b div 16) mod 8"
proof -
  have "drop_bit 4 b AND 7 = take_bit 3 (drop_bit 4 b)" by (simp add: take_bit_eq_mask mask_eq_exp_minus_1)
  then show ?thesis by (simp add: unat_mod unat_div unsigned_take_bit_eq take_bit_eq_mod unsigned_drop_bit_eq drop_bit_eq_div)
qed

lemma js_number_exact: "n < 2 ^ 53 \<Longrightarrow> js_number n = n"
  by (simp add: js_number_def)

lemma foldl_js_number_exact:
  "s + sum_list ts < 2 ^ 53 \<Longrightarrow> foldl (\<lambda>s t. js_number (s + t)) s ts = s + sum_list ts"
proof (induction ts arbitrary: s)
  case Nil
  then show ?case by simp
next
  case (Cons t ts)
  then have "s + t < 2 ^ 53" by simp
  then have "js_number (s + t) = s + t" by (rule js_number_exact)
  with Cons show ?case by (simp add: add.assoc)
qed

lemma header_byte_less: "header_byte buff i < 256"
  using unsigned_less [of "buff ! i", where 'a = nat] by (simp add: header_byte_def)

lemma header_terms_bound:
  "15 + sum_list (map (header_term buff) [1..<Suc k]) < 16 * 128 ^ k"
proof (induction k)
  case 0
  then show ?case by simp
next
  case (Suc k)
  have "header_byte buff (Suc k) mod 128 \<le> 127" by simp
  then have "header_term buff (Suc k) \<le> 127 * (16 * 128 ^ k)"
    unfolding header_term_def by (simp only: diff_Suc_1 mult_le_mono1)
  with Suc show ?case by simp
qed

text \<open>
  Claim C5. For every 32-byte lookahead buffer, the decoder takes the type code from
  bits 4 to 6 of byte 0, seeds the size with the low 4 bits of byte 0, and for every
  byte that follows a byte with bit 7 set adds its low 7 bits, scaled by a multiplier
  that starts at 16 and grows by the factor 128 per continuation byte; the number of
  bytes consumed is the payload offset. The additions are those of JavaScript numbers;
  with at most 7 continuation bytes every sum is below \<open>2 ^ 53\<close> and the size is
  the exact sum.
\<close>

theorem PackedObject_header:
  assumes "length buff = 32"
  shows "po_type (PackedObject idx buff) = header_byte buff 0 div 16 mod 8 \<and>
         po_offset (PackedObject idx buff) = continuation_count buff + 1 \<and>
         po_size (PackedObject idx buff) =
           foldl (\<lambda>s t. js_number (s + t)) (header_byte buff 0 mod 16)
             (map (header_term buff) [1..<continuation_count buff + 1]) \<and>
         (continuation_count buff \<le> 7 \<longrightarrow>
            po_size (PackedObject idx buff) =
              header_byte buff 0 mod 16
                + sum_list (map (header_term buff) [1..<continuation_count buff + 1]))"
proof -
  let ?k = "continuation_count buff"
  let ?s = "header_byte buff 0 mod 16"
  let ?ts = "map (header_term buff) [1..<?k + 1]"
  have loop: "PackedObject_loop buff (buffer_at buff 0) ?s 1 16 =
      (foldl (\<lambda>s t. js_number (s + t)) ?s ?ts, ?k + 1)"
  proof -
    have "(\<lambda>i. header_byte buff i mod 128 * (16 * 128 ^ (i - Suc 0))) = header_term buff"
      by (simp add: header_term_def fun_eq_iff)
    then show ?thesis
      using loop_general [of buff 0 ?s 16]
      by (simp add: continuation_count_def del: upt_Suc)
  qed
  have po: "PackedObject idx buff =
      \<lparr>po_type = header_byte buff 0 div 16 mod 8,
       po_size = foldl (\<lambda>s t. js_number (s + t)) ?s ?ts, po_offset = ?k + 1\<rparr>"
  proof -
    have sz: "unat (to_int32 (buffer_at buff 0) AND 15) = ?s"
      by (simp add: low4 to_int32_header_byte)
    have ty: "unat (drop_bit 4 (to_int32 (buffer_at buff 0)) AND 7) = header_byte buff 0 div 16 mod 8"
      by (simp add: bits46 to_int32_header_byte)
    show ?thesis
      unfolding PackedObject_def Let_def sz ty loop by (simp del: upt_Suc)
  qed
  have exact: "foldl (\<lambda>s t. js_number (s + t)) ?s ?ts = ?s + sum_list ?ts" if k: "?k \<le> 7"
  proof (rule foldl_js_number_exact)
    have "?s \<le> 15" by simp
    moreover have "15 + sum_list ?ts < 16 * 128 ^ ?k"
      using header_terms_bound [of buff ?k] by simp
    moreover have "(128::nat) ^ ?k \<le> 128 ^ 7"
      using k by (rule power_increasing) simp
    then have "(16::nat) * 128 ^ ?k \<le> 16 * 128 ^ 7"
      by (rule mult_le_mono2)
    ultimately show "?s + sum_list ?ts < 2 ^ 53" by simp
  qed
  show ?thesis using exact by (simp add: po del: upt_Suc)
qed

theorem PackedObject_header_witness:
  "length header_example = 32 \<and>
   po_type (PackedObject \<lparr>offset = 0, fileIndex = 0\<rparr> header_example) = 1 \<and>
   po_offset (PackedObject \<lparr>offset = 0, fileIndex = 0\<rparr> header_example) = 2 \<and>
   po_size (PackedObject \<lparr>offset = 0, fileIndex = 0\<rparr> header_example) = 95"
proof -
  have len: "length header_example = 32" by (simp add: header_example_def)
  have k: "continuation_count header_example = 1"
    by (simp add: continuation_count_def header_example_def)
  have b0: "header_byte header_example 0 = 159" and b1: "header_byte header_example (Suc 0) = 5"
    by (simp_all add: header_byte_def header_example_def)
  show ?thesis
    using PackedObject_header [OF len, of "\<lparr>offset = 0, fileIndex = 0\<rparr>"]
    by (simp add: k b0 b1 header_term_def len js_number_def)
qed

subsection \<open>The asynchronous methods compute what the synchronous ones do\<close>

lemma infAsync_eq: "infAsync fuel env fd idx po sz st = infSync fuel env fd idx po sz st"
  by (induction fuel arbitrary: sz st) (simp_all add: Let_def split: sum.splits)

lemma async_eq_sync:
  "unpackGitObject fuel env packs hash st = unpackGitObjectSync fuel env packs hash st"
  "p_unpackGitObject fuel env packs fd idx st = p_unpackGitObjectSync fuel env packs fd idx st"
  "p_unpackDeltaObject fuel env packs fd idx po head st =
     p_unpackDeltaObjectSync fuel env packs fd idx po head st"
proof (induction fuel env packs hash st and fuel env packs fd idx st and fuel env packs fd idx po head st
    rule: unpackGitObjectSync_p_unpackGitObjectSync_p_unpackDeltaObjectSync.induct)
  case (1 fuel env packs hash st)
  then show ?case
    by (simp add: Let_def unpackGitObjectSync.simps unpackGitObject.simps
        split: sum.splits option.splits)
next
  case (2 env packs fd idx st)
  then show ?case by simp
next
  case (3 fuel env packs fd idx st)
  then show ?case by (simp add: Let_def infAsync_eq split: sum.splits option.splits)
next
  case (4 fuel env packs fd idx po head st)
  then show ?case
    by (simp add: infAsync_eq p_unpackDeltaObjectSync.simps p_unpackDeltaObject.simps
        split: sum.splits option.splits prod.splits)
qed


subsection \<open>Resolution of a hash\<close>

lemma unpackGitObjectSync_absent:
  "packedIndexMap packs hash = None \<Longrightarrow>
   unpackGitObjectSync fuel env packs hash st = Some (Inl (NotFound hash), st)"
  by (simp add: unpackGitObjectSync.simps p_getPackedIndexFromCache_def)

text \<open>
  Claim C4. For every hash that the index map does not hold, \<^verbatim>\<open>unpackGitObject\<close>
  and \<^verbatim>\<open>unpackGitObjectSync\<close> fail with the not-found error, and the state they
  return is the state they were given: the trace of file operations has not grown, so no
  pack file was opened or read.
\<close>

theorem resolve_absent_hash:
  assumes "packedIndexMap packs hash = None"
  shows "unpackGitObject fuel env packs hash st = Some (Inl (NotFound hash), st) \<and>
         unpackGitObjectSync fuel env packs hash st = Some (Inl (NotFound hash), st)"
  using assms by (simp add: async_eq_sync(1) unpackGitObjectSync_absent)


theorem resolve_absent_hash_witness:
  "unpackGitObject 0 example_env example_packs ''00'' empty_state
     = Some (Inl (NotFound ''00''), empty_state) \<and>
   unpackGitObjectSync 0 example_env example_packs ''00'' empty_state
     = Some (Inl (NotFound ''00''), empty_state)"
proof -
  have "packedIndexMap example_packs ''00'' = None"
    by (simp add: example_packs_def hash_commit_def hash_ofs_delta_def hash_tree_def
        hash_ref_delta_def)
  then show ?thesis by (rule resolve_absent_hash)
qed


lemma p_unpackGitObjectSync_invalid:
  assumes "p_getPackedObjectBufferFromCach st idx = None"
    and "readSync env fd (alloc 32) (offset idx) = Inr head"
    and "\<not> dispatched (po_type (PackedObject idx head))"
  shows "p_unpackGitObjectSync (Suc fuel) env packs fd idx st =
           Some (Inl (InvalidObjectType (po_type (PackedObject idx head))),
                 trace (Read fd (offset idx) 32) st)"
  using assms by (simp add: dispatched_def Let_def)

text \<open>
  Claim C7. An object whose header decodes to a kind other than commit, tag, offset
  delta and reference delta (a tree, a blob, or the codes 0 and 5) makes the resolution
  fail with the invalid-object-type error. The file operations of the call are the open,
  the read of the 32-byte lookahead and the close: the object is not handed to the
  decompressor nor to the delta resolution, which would read the payload.
\<close>

theorem invalid_object_type:
  assumes "packedIndexMap packs hash = Some idx"
    and "p_getPackedObjectBufferFromCach st idx = None"
    and "open_file env (p_getPackFilePath env packs idx) = Inr fd"
    and "readSync env fd (alloc 32) (offset idx) = Inr head"
    and "\<not> dispatched (po_type (PackedObject idx head))"
  shows "unpackGitObject (Suc fuel) env packs hash st =
           Some (Inl (InvalidObjectType (po_type (PackedObject idx head))),
                 st\<lparr>io_trace := io_trace st @
                    [Open (p_getPackFilePath env packs idx), Read fd (offset idx) 32, Close fd]\<rparr>) \<and>
         unpackGitObjectSync (Suc fuel) env packs hash st =
           Some (Inl (InvalidObjectType (po_type (PackedObject idx head))),
                 st\<lparr>io_trace := io_trace st @
                    [Open (p_getPackFilePath env packs idx), Read fd (offset idx) 32, Close fd]\<rparr>)"
proof -
  let ?st1 = "trace (Open (p_getPackFilePath env packs idx)) st"
  have miss: "p_getPackedObjectBufferFromCach ?st1 idx = None"
    using assms(2) by (simp add: p_getPackedObjectBufferFromCach_def trace_def)
  have inner: "p_unpackGitObjectSync (Suc fuel) env packs fd idx ?st1 =
      Some (Inl (InvalidObjectType (po_type (PackedObject idx head))),
            trace (Read fd (offset idx) 32) ?st1)"
    by (rule p_unpackGitObjectSync_invalid [OF miss assms(4) assms(5)])
  have "unpackGitObjectSync (Suc fuel) env packs hash st =
      Some (Inl (InvalidObjectType (po_type (PackedObject idx head))),
            trace (Close fd) (trace (Read fd (offset idx) 32) ?st1))"
    using assms(1-3) inner
    by (simp add: unpackGitObjectSync.simps p_getPackedIndexFromCache_def Let_def
        del: p_unpackGitObjectSync.simps)
  then show ?thesis by (simp add: async_eq_sync(1) trace_def)
qed


theorem invalid_object_type_witness:
  "unpackGitObject (Suc 0) example_env example_packs hash_tree empty_state =
     Some (Inl (InvalidObjectType 2),
           empty_state\<lparr>io_trace := [Open ''repo/objects/pack/pack-1.pack'', Read 3 10 32, Close 3]\<rparr>) \<and>
   unpackGitObjectSync (Suc 0) example_env example_packs hash_tree empty_state =
     Some (Inl (InvalidObjectType 2),
           empty_state\<lparr>io_trace := [Open ''repo/objects/pack/pack-1.pack'', Read 3 10 32, Close 3]\<rparr>)"
proof -
  let ?head = "take 32 (drop 10 example_pack) @ replicate 6 0"
  have idx: "packedIndexMap example_packs hash_tree = Some tree_location"
    by (simp add: example_packs_def hash_commit_def hash_ofs_delta_def hash_tree_def
        hash_ref_delta_def tree_location_def)
  have miss: "p_getPackedObjectBufferFromCach empty_state tree_location = None"
    by (simp add: p_getPackedObjectBufferFromCach_def empty_state_def)
  have path: "p_getPackFilePath example_env example_packs tree_location = ''repo/objects/pack/pack-1.pack''"
    by code_simp
  have opn: "open_file example_env (p_getPackFilePath example_env example_packs tree_location) = Inr 3"
    by code_simp
  have rd: "readSync example_env 3 (alloc 32) (offset tree_location) = Inr ?head"
    by code_simp
  have ty: "po_type (PackedObject tree_location ?head) = 2"
    by code_simp
  have nd: "\<not> dispatched (po_type (PackedObject tree_location ?head))"
    unfolding ty by (simp add: dispatched_def COMMIT_def TAG_def OFS_DELTA_def REF_DELTA_def)
  note main = invalid_object_type [OF idx miss opn rd nd, of 0, unfolded ty path]
  show ?thesis
    using main by (simp add: tree_location_def empty_state_def)
qed


lemma p_unpackGitObjectSync_cached:
  assumes "p_unpackGitObjectSync fuel env packs fd idx st = Some (Inr dst, st')"
  shows "p_getPackedObjectBufferFromCach st' idx = Some dst"
proof (cases fuel)
  case 0
  with assms show ?thesis by simp
next
  case (Suc n)
  show ?thesis
  proof (cases "p_getPackedObjectBufferFromCach st idx")
    case (Some b)
    with assms Suc show ?thesis by simp
  next
    case None
    with assms Suc show ?thesis
      by (auto simp: Let_def p_getPackedObjectBufferFromCach_def p_setPackedObjectBuffrToCache_def
          simp del: infSync.simps
          split: sum.splits option.splits prod.splits if_splits)
  qed
qed

lemma unpackGitObjectSync_cached:
  assumes "unpackGitObjectSync fuel env packs hash st = Some (Inr dst, st')"
  shows "\<exists>idx. packedIndexMap packs hash = Some idx \<and>
           p_getPackedObjectBufferFromCach st' idx = Some dst"
proof (cases "packedIndexMap packs hash")
  case None
  with assms show ?thesis by (simp add: unpackGitObjectSync.simps p_getPackedIndexFromCache_def)
next
  case (Some idx)
  show ?thesis
  proof (cases "p_getPackedObjectBufferFromCach st idx")
    case (Some b)
    with assms \<open>packedIndexMap packs hash = Some idx\<close> show ?thesis
      by (simp add: unpackGitObjectSync.simps p_getPackedIndexFromCache_def)
  next
    case None
    with assms \<open>packedIndexMap packs hash = Some idx\<close>
    obtain fd st2 where
      inner: "p_unpackGitObjectSync fuel env packs fd idx (trace (Open (p_getPackFilePath env packs idx)) st) = Some (Inr dst, st2)"
      and st': "st' = trace (Close fd) st2"
      by (auto simp: unpackGitObjectSync.simps p_getPackedIndexFromCache_def Let_def
          simp del: p_unpackGitObjectSync.simps split: sum.splits option.splits)
    from inner have "p_getPackedObjectBufferFromCach st2 idx = Some dst"
      by (rule p_unpackGitObjectSync_cached)
    then show ?thesis using \<open>packedIndexMap packs hash = Some idx\<close> st'
      by (simp add: p_getPackedObjectBufferFromCach_def trace_def)
  qed
qed

text \<open>
  Claim C8. When a resolution of a hash succeeds, the cache of the store holds the
  returned bytes under the pair of the file index and the offset of the hash, and a
  second resolution of the hash, in the state that the first has left, returns the same
  bytes and leaves the state as it is: the trace of file operations does not grow.
\<close>

theorem resolve_twice:
  assumes "unpackGitObjectSync fuel env packs hash st = Some (Inr dst, st') \<or>
           unpackGitObject fuel env packs hash st = Some (Inr dst, st')"
  shows "(\<exists>idx. packedIndexMap packs hash = Some idx \<and>
            packedObjectCache st' (fileIndex idx, offset idx) = Some dst) \<and>
         unpackGitObjectSync fuel' env' packs hash st' = Some (Inr dst, st') \<and>
         unpackGitObject fuel' env' packs hash st' = Some (Inr dst, st')"
proof -
  from assms have "unpackGitObjectSync fuel env packs hash st = Some (Inr dst, st')"
    by (auto simp add: async_eq_sync(1))
  then obtain idx where idx: "packedIndexMap packs hash = Some idx"
    and hit: "p_getPackedObjectBufferFromCach st' idx = Some dst"
    using unpackGitObjectSync_cached by blast
  then have "unpackGitObjectSync fuel' env' packs hash st' = Some (Inr dst, st')"
    by (simp add: unpackGitObjectSync.simps p_getPackedIndexFromCache_def)
  then show ?thesis using idx hit
    by (simp add: async_eq_sync(1) p_getPackedObjectBufferFromCach_def)
qed

theorem resolve_twice_witness:
  "\<exists>st'. unpackGitObjectSync 2 example_env example_packs hash_commit empty_state
            = Some (Inr [0x61, 0x62, 0x63], st') \<and>
         packedObjectCache st' (0, 0) = Some [0x61, 0x62, 0x63] \<and>
         unpackGitObjectSync 0 example_env example_packs hash_commit st'
            = Some (Inr [0x61, 0x62, 0x63], st') \<and>
         unpackGitObject 0 example_env example_packs hash_commit st'
            = Some (Inr [0x61, 0x62, 0x63], st')"
proof -
  have "map_option fst (unpackGitObjectSync 2 example_env example_packs hash_commit empty_state)
      = Some (Inr [0x61, 0x62, 0x63])"
    by code_simp
  then obtain st' where first:
    "unpackGitObjectSync 2 example_env example_packs hash_commit empty_state
       = Some (Inr [0x61, 0x62, 0x63], st')"
    by (cases "unpackGitObjectSync 2 example_env example_packs hash_commit empty_state") auto
  have idx: "packedIndexMap example_packs hash_commit = Some \<lparr>offset = 0, fileIndex = 0\<rparr>"
    by (simp add: example_packs_def hash_commit_def hash_ofs_delta_def hash_tree_def
        hash_ref_delta_def)
  show ?thesis
    using resolve_twice [OF disjI1 [OF first], of 0 example_env] first idx
    by auto
qed

subsection \<open>The decompression retry\<close>






subsection \<open>Resolution of a delta object\<close>

lemma default_size_po_offset [simp]: "default_size (po\<lparr>po_offset := off\<rparr>) = default_size po"
  by (simp add: default_size_def)





subsection \<open>The registry\<close>


lemma lru_get_miss: "map_of c k = None \<Longrightarrow> lru_get k c = (None, c)"
  by (simp add: lru_get_def)










lemma initialize_failure_stays:
  assumes "map_of (packsCache st) gitDir = None"
    and "processings st gitDir = None"
    and "p_initialize env gitDir st = (Inl e, st1)"
  shows "initialize env gitDir st = (Inl e, st1\<lparr>processings := (processings st1)(gitDir \<mapsto> Inl e)\<rparr>)"
  using assms by (simp add: initialize_def lru_get_miss Let_def)


lemma no_index_files_example: "no_index_files example_env ''repo''"
  by (simp add: no_index_files_def example_env_def)




lemma initialize_success_clears:
  assumes "map_of (packsCache st) gitDir = None"
    and "processings st gitDir = None"
    and "p_initialize env gitDir st = (Inr packs, st1)"
  shows "\<exists>st'. initialize env gitDir st = (Inr packs, st') \<and> processings st' gitDir = None"
  using assms by (simp add: initialize_def lru_get_miss Let_def)

lemma p_initialize_broken:
  "p_initialize broken_env ''repo'' new_registry =
     (Inl RangeError,
      new_registry\<lparr>io_log := [ReadDir ''repo/objects/pack'', ReadFile ''repo/objects/pack/a.idx'']\<rparr>)"
  by (simp add: p_initialize_def broken_env_def example_env_def new_registry_def log_io_def
      is_idx_def base_name_def setupPackedIndexMap_def readUInt32BE_def readUIntBE_def Let_def)

text \<open>
  Evidence for claim C2. In \<open>broken_env\<close> the build of the store of \<^verbatim>\<open>repo\<close>
  fails, since the index file is empty. The callback that deletes the entry of
  \<^verbatim>\<open>processings\<close> runs on fulfilment only, so the rejected promise stays, and a
  later call returns it: here in an environment where a fresh build would succeed with
  an empty store, and without any file operation.
\<close>

theorem failed_build_stays_in_flight:
  "\<exists>st'. initialize broken_env ''repo'' new_registry = (Inl RangeError, st') \<and>
         processings st' ''repo'' = Some (Inl RangeError) \<and>
         no_index_files example_env ''repo'' \<and>
         initialize example_env ''repo'' st' = (Inl RangeError, st')"
proof -
  have c: "map_of (packsCache new_registry) ''repo'' = None"
    and p: "processings new_registry ''repo'' = None"
    by (simp_all add: new_registry_def)
  let ?st1 = "new_registry\<lparr>io_log := [ReadDir ''repo/objects/pack'', ReadFile ''repo/objects/pack/a.idx'']\<rparr>"
  let ?st' = "?st1\<lparr>processings := (processings ?st1)(''repo'' \<mapsto> Inl RangeError)\<rparr>"
  have first: "initialize broken_env ''repo'' new_registry = (Inl RangeError, ?st')"
    by (rule initialize_failure_stays [OF c p p_initialize_broken])
  have second: "initialize example_env ''repo'' ?st' = (Inl RangeError, ?st')"
    by (simp add: initialize_def lru_get_def new_registry_def)
  show ?thesis
    using first second no_index_files_example by (intro exI [of _ ?st']) simp
qed

subsection \<open>The index parser on a large offset\<close>

lemma length_index_tail: "length index_tail = 80"
  by (simp add: index_tail_def)

lemma length_large_offset_index: "length large_offset_index = 1108"
  by (simp add: large_offset_index_def length_index_tail)

lemma drop_large_offset_index:
  assumes "1028 \<le> p"
  shows "drop p large_offset_index = drop (p - 1028) index_tail"
proof -
  define pre :: buffer where "pre = [0xff, 0x74, 0x4f, 0x63, 0, 0, 0, 2] @ replicate 1020 0"
  have l: "length pre = 1028" by (simp add: pre_def)
  have e: "large_offset_index = pre @ index_tail"
    by (simp add: large_offset_index_def pre_def)
  show ?thesis using assms unfolding e by (simp add: l)
qed

lemma read_index_tail:
  assumes "1028 \<le> p" and "p + w \<le> 1108"
  shows "readUIntBE w api large_offset_index p = Inr (be_value (take w (drop (p - 1028) index_tail)))"
proof -
  have "p < 2 ^ 32" using assms by simp
  then have "read_offset api p = p" by (cases api) (simp_all add: read_offset_def)
  then show ?thesis
    using assms by (simp add: readUIntBE_def length_large_offset_index drop_large_offset_index)
qed

lemma read_magic: "readUIntBE 4 api large_offset_index 0 = Inr 0xff744f63"
  by (cases api) (simp_all add: readUIntBE_def read_offset_def large_offset_index_def be_value_def)

lemma read_version: "readUIntBE 4 api large_offset_index 4 = Inr 2"
  by (cases api) (simp_all add: readUIntBE_def read_offset_def large_offset_index_def be_value_def)

lemma read_count: "readUIntBE 4 api large_offset_index 1028 = Inr 1"
  by (simp add: read_index_tail) (simp add: index_tail_def be_value_def)

lemma read_off32: "readUIntBE 4 api large_offset_index 1056 = Inr 0x80000000"
  by (simp add: read_index_tail) (simp add: index_tail_def be_value_def)

lemma read_lo16: "readUIntBE 2 api large_offset_index 1064 = Inr 0"
  by (simp add: read_index_tail) (simp add: index_tail_def be_value_def)

lemma read_hi_checked:
  "readUIntBE 4 OffsetChecked large_offset_index 4552665333760 = Inl RangeError"
  by (simp add: readUIntBE_def read_offset_def length_large_offset_index)

lemma read_hi_coerced:
  "readUIntBE 4 OffsetCoerced large_offset_index 4552665333760 = Inr 0xff744f63"
  by (simp add: readUIntBE_def read_offset_def large_offset_index_def be_value_def)

lemma read_hash: "readHash large_offset_index 1032 = hash_ff"
proof -
  have "readHash large_offset_index 1032 = concat (map hex_byte (take 20 (drop 4 index_tail)))"
    by (simp add: readHash_def drop_large_offset_index)
  also have "\<dots> = hash_ff" by code_simp
  finally show ?thesis .
qed

lemma high_bit: "high_bit_set 2147483648"
  by (simp add: high_bit_set_def)

lemma documented: "documented_offset large_offset_index 1060 2147483648 = 4294967296"
  by (simp add: documented_offset_def drop_large_offset_index)
     (simp add: index_tail_def be_value_def)

text \<open>
  Evidence for claim C3. On the index \<open>large_offset_index\<close> the entry of the 32-bit
  table has its high bit set, and the 64-bit table, at byte 1060, holds \<open>2 ^ 32\<close>.
  The parser reads 32 bits at byte \<open>1060 * 4294967296\<close>: a runtime that checks the
  offset throws a range error, and a runtime that coerces it reads byte 0, the magic
  number, to which the parser adds the 16 bits at byte 1064. Neither records the offset
  \<open>2 ^ 32\<close> that the format documents.
\<close>

theorem large_offset_entry_misread:
  "setupPackedIndexMap OffsetChecked large_offset_index 0 Map.empty = Inl RangeError \<and>
   setupPackedIndexMap OffsetCoerced large_offset_index 0 Map.empty
     = Inr [hash_ff \<mapsto> \<lparr>offset = 4285812579, fileIndex = 0\<rparr>] \<and>
   documented_offset large_offset_index 1060 0x80000000 = 4294967296"
  by (simp add: setupPackedIndexMap_def readUInt32BE_def readUInt16BE_def read_magic read_version
      read_count read_off32 read_lo16 read_hi_checked read_hi_coerced read_hash high_bit
      documented)

end
